theory Spec2Isabelle
  imports Main "HOL-Library.Multiset"
begin

section \<open>Time-partitioned pagination of the log search composable\<close>

text \<open>
  The composable keeps, per search, the partition list reported by the backend
  (\<open>partitions\<close>, each item an array \<open>[start, end]\<close>), the record count of every
  partition (\<open>partitionTotal\<close>, the sentinel \<open>-1\<close> while unknown) and the plan of
  logical pages (\<open>paginations\<close>, a page being an array of slices).  JavaScript numbers
  are modelled by \<open>int\<close>: every value involved is an integer far below \<open>2 ^ 53\<close>.
  An array slot that reads \<open>undefined\<close> is \<open>None\<close>.
\<close>

type_synonym partition = "int \<times> int"

record pageSlice =
  startTime :: int
  endTime :: int
  from_s :: int
  size_s :: int

type_synonym paginations = "pageSlice list list"

text \<open>\<open>arr[i]\<close> of JavaScript: \<open>undefined\<close> outside the array.\<close>

definition js_index :: "'a option list \<Rightarrow> nat \<Rightarrow> 'a option" where
  "js_index xs i = (if i < length xs then xs ! i else None)"

text \<open>
  \<open>Math.ceil(total / rowsPerPage)\<close> on integers, for a positive or negative
  divisor.  The rows per page of the result grid is a positive number (250 by
  default); the division by zero of JavaScript, which gives an infinity or \<open>NaN\<close>,
  is outside this definition.
\<close>

definition ceil_div :: "int \<Rightarrow> int \<Rightarrow> int" where
  "ceil_div n rowsPerPage = - ((- n) div rowsPerPage)"

text \<open>
  \<open>if (!paginations[pageNumber]) paginations[pageNumber] = []\<close>.  An array, even an
  empty one, is truthy, so an existing page is kept.  Writing at index \<open>length\<close>
  appends; writing beyond it would leave holes, which the plan builder never does
  (\<open>pageNumber\<close> grows by one only after a push to that page), and is \<open>None\<close> here.
\<close>

definition ensure_page :: "paginations \<Rightarrow> nat \<Rightarrow> paginations option" where
  "ensure_page pages pageNumber =
     (if pageNumber < length pages then Some pages
      else if pageNumber = length pages then Some (pages @ [[]])
      else None)"

text \<open>\<open>paginations[pageNumber].push(slice)\<close>; a \<open>TypeError\<close> (\<open>None\<close>) on a missing page.\<close>

definition push_slice :: "paginations \<Rightarrow> nat \<Rightarrow> pageSlice \<Rightarrow> paginations option" where
  "push_slice pages pageNumber s =
     (if pageNumber < length pages
      then Some (pages[pageNumber := pages ! pageNumber @ [s]])
      else None)"

text \<open>
  \<open>lastPage = paginations.length - 1; paginations[lastPage].forEach(item =>
  lastPartitionSize += item.size)\<close>, from \<open>lastPartitionSize = 0\<close>; a \<open>TypeError\<close>
  on the empty plan.
\<close>

definition last_page_size :: "paginations \<Rightarrow> int option" where
  "last_page_size pages =
     (if pages = [] then None else Some (sum_list (map size_s (last pages))))"

text \<open>
  The body of \<open>for (let i = 0; i < totalPages; i++)\<close> for one partition with a
  positive page count.  The loop state is the plan, \<open>pageNumber\<close> and
  \<open>partitionFrom\<close>.  \<open>return true\<close> leaves the \<open>forEach\<close> callback of this
  partition only: the loop ends and the next partition is visited.
\<close>

function for_pages ::
  "int \<Rightarrow> int \<Rightarrow> partition \<Rightarrow> int \<Rightarrow> int \<Rightarrow> nat \<Rightarrow> paginations \<times> nat \<times> int
     \<Rightarrow> (paginations \<times> nat) option" where
  "for_pages rowsPerPage currentPage item total_p totalPages i (pages, pageNumber, partitionFrom) =
     (if int i < totalPages then
        (let recordSize0 =
               (if int i = totalPages - 1
                then (if total_p - partitionFrom \<noteq> 0 then total_p - partitionFrom else rowsPerPage)
                else rowsPerPage);
             from = partitionFrom
         in case (if pageNumber > 0
                  then map_option
                         (\<lambda>l. (l, if l \<noteq> rowsPerPage then rowsPerPage - l else recordSize0))
                         (last_page_size pages)
                  else Some (0, recordSize0)) of
              None \<Rightarrow> None
            | Some (lastPartitionSize, recordSize) \<Rightarrow>
               (case ensure_page pages pageNumber of
                  None \<Rightarrow> None
                | Some pages1 \<Rightarrow>
                   (case push_slice pages1 pageNumber
                           \<lparr>startTime = fst item, endTime = snd item, from_s = from,
                            size_s = min recordSize rowsPerPage\<rparr> of
                      None \<Rightarrow> None
                    | Some pages2 \<Rightarrow>
                       (let partitionFrom' = partitionFrom + recordSize;
                            pageNumber' =
                              (if recordSize = rowsPerPage
                                  \<or> lastPartitionSize + recordSize = rowsPerPage
                               then pageNumber + 1 else pageNumber)
                        in if int (length pages2) > currentPage + 10
                           then Some (pages2, pageNumber')
                           else for_pages rowsPerPage currentPage item total_p totalPages (i + 1)
                                  (pages2, pageNumber', partitionFrom')))))
      else Some (pages, pageNumber))"
  by pat_completeness auto
termination
  by (relation "measure (\<lambda>(r, c, it, t, tp, i, s). nat (tp - int i))") auto

declare for_pages.simps [simp del]

text \<open>
  The \<open>else\<close> branch of the \<open>forEach\<close> callback, taken when \<open>totalPages > 0\<close>
  fails: one slice from offset \<open>0\<close> is pushed, of the size that the last page of
  the plan lacks (a full page when that page is full), and the page is closed.
\<close>

definition else_branch ::
  "int \<Rightarrow> partition \<Rightarrow> paginations \<times> nat \<Rightarrow> (paginations \<times> nat) option" where
  "else_branch rowsPerPage item st =
     (case st of (pages, pageNumber) \<Rightarrow>
        (case last_page_size pages of
           None \<Rightarrow> None
         | Some lastPartitionSize \<Rightarrow>
            (let recordSize =
                   (if lastPartitionSize \<noteq> rowsPerPage
                    then rowsPerPage - lastPartitionSize else rowsPerPage)
             in case push_slice pages pageNumber
                       \<lparr>startTime = fst item, endTime = snd item, from_s = 0,
                        size_s = recordSize\<rparr> of
                  None \<Rightarrow> None
                | Some pages1 \<Rightarrow> Some (pages1, pageNumber + 1))))"

text \<open>
  The \<open>forEach\<close> callback for one partition.  \<open>Math.ceil\<close> of the sentinel \<open>-1\<close>, of
  \<open>0\<close> and of \<open>undefined\<close> (\<open>NaN\<close>) all fail \<open>totalPages > 0\<close> and take the
  \<open>else\<close> branch.
\<close>

definition partition_callback ::
  "int \<Rightarrow> int \<Rightarrow> int option list \<Rightarrow> paginations \<times> nat \<Rightarrow> partition \<Rightarrow> nat
     \<Rightarrow> (paginations \<times> nat) option" where
  "partition_callback rowsPerPage currentPage totals st item index =
     (case st of (pages, pageNumber) \<Rightarrow>
        (case ensure_page pages pageNumber of
           None \<Rightarrow> None
         | Some pages0 \<Rightarrow>
            (case js_index totals index of
               None \<Rightarrow> else_branch rowsPerPage item (pages0, pageNumber)
             | Some total_p \<Rightarrow>
                (if ceil_div total_p rowsPerPage > 0
                 then for_pages rowsPerPage currentPage item total_p
                        (ceil_div total_p rowsPerPage) 0 (pages0, pageNumber, 0)
                 else else_branch rowsPerPage item (pages0, pageNumber)))))"

text \<open>\<open>partitions.forEach((item, index) => ...)\<close>, from the given index on.\<close>

fun forEach_partition ::
  "int \<Rightarrow> int \<Rightarrow> int option list \<Rightarrow> partition list \<Rightarrow> nat \<Rightarrow> paginations \<times> nat
     \<Rightarrow> (paginations \<times> nat) option" where
  "forEach_partition rowsPerPage currentPage totals [] index st = Some st"
| "forEach_partition rowsPerPage currentPage totals (item # items) index st =
     (case partition_callback rowsPerPage currentPage totals st item index of
        None \<Rightarrow> None
      | Some st' \<Rightarrow> forEach_partition rowsPerPage currentPage totals items (index + 1) st')"

text \<open>
  The rebuild proper: the plan is emptied and rebuilt from the partitions and their
  totals.
\<close>

definition rebuild ::
  "int \<Rightarrow> int \<Rightarrow> partition list \<Rightarrow> int option list \<Rightarrow> paginations option" where
  "rebuild rowsPerPage currentPage parts totals =
     map_option fst (forEach_partition rowsPerPage currentPage totals parts 0 ([], 0))"


section \<open>The search state\<close>

text \<open>
  The fields of the reactive \<open>searchObj\<close> that the planner, the executor and the
  histogram request read or write, flattened into one record:
  \<open>meta.resultGrid.rowsPerPage\<close>, \<open>data.resultGrid.currentPage\<close>,
  \<open>meta.refreshInterval\<close>, the name of the current route, \<open>meta.showHistogram\<close>,
  \<open>meta.sqlMode\<close>, \<open>loading\<close>, \<open>loadingHistogram\<close>, \<open>data.errorMsg\<close>,
  \<open>data.errorCode\<close>, \<open>data.functionError\<close>, and \<open>data.queryResults\<close> with its
  \<open>partitionDetail\<close>.  A property of \<open>queryResults\<close> that is absent or
  \<open>undefined\<close> is \<open>None\<close>.  \<open>'h\<close> is the type of a hit, \<open>'a\<close> of the
  aggregation result.
\<close>

record ('h, 'a) searchObj =
  rowsPerPage :: int
  currentPage :: int
  refreshInterval :: int
  routeName :: string
  showHistogram :: bool
  sqlMode :: bool
  loading :: bool
  loadingHistogram :: bool
  errorMsg :: string
  errorCode :: "int option"
  functionError :: string
  hits :: "'h list option"
  total_qr :: "int option"
  from_qr :: "int option"
  size_qr :: "int option"
  scan_size :: "int option"
  took :: "int option"
  aggs :: "'a option"
  function_error_qr :: "string option"
  partitions :: "partition list"
  partitionTotal :: "int option list"
  paginations :: paginations
  subpage :: nat

text \<open>
  \<open>refreshPartitionPagination\<close>: the plan is rebuilt only while it holds at most
  \<open>currentPage + 3\<close> pages; otherwise the stored plan is kept.
\<close>

definition refreshPartitionPagination ::
  "('h, 'a) searchObj \<Rightarrow> ('h, 'a) searchObj option" where
  "refreshPartitionPagination st =
     (if int (length (paginations st)) \<le> currentPage st + 3
      then map_option (\<lambda>pages. st\<lparr>paginations := pages\<rparr>)
             (rebuild (rowsPerPage st) (currentPage st) (partitions st) (partitionTotal st))
      else Some st)"

section \<open>The partition request\<close>

text \<open>
  The response of the partition service: \<open>res.data.records\<close> and
  \<open>res.data.partitions\<close>.
\<close>

record partitionResponse =
  records :: int
  partitions_r :: "partition list"

text \<open>
  \<open>partitions.forEach\<close> of \<open>getQueryPartitions\<close>: one page holding one slice per
  partition, and the sentinel \<open>-1\<close> as its total.
\<close>

fun forEach_initial ::
  "int \<Rightarrow> partition list \<Rightarrow> paginations \<times> int option list \<Rightarrow> paginations \<times> int option list" where
  "forEach_initial rpp [] acc = acc"
| "forEach_initial rpp (item # items) (pages, totals) =
     (let pageObject = [\<lparr>startTime = fst item, endTime = snd item, from_s = 0, size_s = rpp\<rparr>]
      in forEach_initial rpp items (pages @ [pageObject], totals @ [Some (- 1)]))"

text \<open>
  The \<open>then\<close> handler of \<open>getQueryPartitions\<close>.  \<open>Array.prototype.sort\<close> with the
  comparator \<open>a[0] - b[0]\<close> is a stable sort on the start time.
\<close>

definition getQueryPartitions ::
  "('h, 'a) searchObj \<Rightarrow> partitionResponse \<Rightarrow> ('h, 'a) searchObj" where
  "getQueryPartitions st res =
     (let sorted_partitions = sort_key fst (partitions_r res);
          (pages, totals) = forEach_initial (rowsPerPage st) sorted_partitions ([], [])
      in st\<lparr>total_qr := Some (records res),
            partitions := sorted_partitions,
            paginations := pages,
            partitionTotal := totals\<rparr>)"

section \<open>The paginated executor\<close>

text \<open>
  \<open>queryReq\<close>: the fields of \<open>queryReq.query\<close> that the executor touches.
  \<open>track_total_hits\<close> is \<open>None\<close> when the request has no such property.
\<close>

record query =
  sql :: string
  start_time :: int
  end_time :: int
  from_q :: int
  size_q :: int
  track_total_hits :: "bool option"

text \<open>\<open>res.data\<close> of a search response; \<open>total\<close>, \<open>aggs\<close> and \<open>function_error\<close> are optional.\<close>

record ('h, 'a) response =
  hits_r :: "'h list"
  total_r :: "int option"
  from_r :: int
  size_r :: int
  scan_size_r :: int
  took_r :: int
  aggs_r :: "'a option"
  function_error_r :: "string option"

text \<open>
  The value a rejected request is caught with: an error carrying a \<open>response\<close>
  (\<open>err.response.data.error\<close> and \<open>err.response.data.code\<close>), or an \<open>Error\<close> object
  without one (a transport error, or an exception thrown by the \<open>then\<close> handler),
  of which only \<open>err.message\<close> is read.
\<close>

datatype fetch_error = ResponseError string "int option" | ErrorObject string

text \<open>
  What the executor imports: \<open>logsErrorMessage\<close> of \<open>@/utils/common\<close> (the empty
  string for a code without an entry), the translation function \<open>t\<close> of the i18n
  plugin, and the message text the JavaScript engine gives a \<open>TypeError\<close> raised
  by reading the named property of \<open>undefined\<close>.
\<close>

record environment =
  logsErrorMessage :: "int option \<Rightarrow> string"
  t_i18n :: "string \<Rightarrow> string"
  typeErrorMessage :: "string \<Rightarrow> string"

text \<open>
  The start of \<open>getPaginatedData\<close>: the flag is decided by
  \<open>partitionTotal[currentPage - 1]\<close>.  A negative index reads \<open>undefined\<close>, and
  \<open>undefined\<close> is neither \<open>== -1\<close> nor \<open>> -1\<close>.
\<close>

definition current_total :: "('h, 'a) searchObj \<Rightarrow> int option" where
  "current_total st =
     (if currentPage st - 1 < 0 then None
      else js_index (partitionTotal st) (nat (currentPage st - 1)))"

definition getPaginatedData_request :: "('h, 'a) searchObj \<Rightarrow> query \<Rightarrow> query" where
  "getPaginatedData_request st queryReq =
     (case current_total st of
        None \<Rightarrow> queryReq
      | Some n \<Rightarrow>
         (if n = - 1 then queryReq\<lparr>track_total_hits := Some True\<rparr>
          else if n > - 1 \<and> track_total_hits queryReq \<noteq> None
               then queryReq\<lparr>track_total_hits := None\<rparr>
          else queryReq))"

text \<open>
  The first \<open>forEach\<close> of the \<open>then\<close> handler: every partition whose total is the
  sentinel and whose start is the request's \<open>start_time\<close> takes \<open>res.data.total\<close>,
  and the plan is refreshed.
\<close>

fun forEach_total ::
  "partition list \<Rightarrow> nat \<Rightarrow> query \<Rightarrow> ('h, 'a) response \<Rightarrow> ('h, 'a) searchObj
     \<Rightarrow> ('h, 'a) searchObj option" where
  "forEach_total [] index queryReq res st = Some st"
| "forEach_total (item # items) index queryReq res st =
     (if js_index (partitionTotal st) index = Some (- 1) \<and> start_time queryReq = fst item
      then (case refreshPartitionPagination
                   (st\<lparr>partitionTotal := (partitionTotal st)[index := total_r res]\<rparr>) of
              None \<Rightarrow> None
            | Some st' \<Rightarrow> forEach_total items (index + 1) queryReq res st')
      else forEach_total items (index + 1) queryReq res st)"

text \<open>
  The merge of the response into \<open>queryResults\<close>.  \<open>Inl\<close> is the state at a thrown
  \<open>TypeError\<close> (\<open>hits.push\<close> on a missing \<open>hits\<close>) with the property read.
  Without track_total_hits in the request, \<open>res.data.total\<close> is deleted before
  \<open>res.data\<close> is spread over \<open>queryResults\<close>.  In live-refresh mode the hits of
  the response replace the held ones (the merge by timestamp is commented out in
  the source).  \<open>resetFieldValues\<close> clears a cache outside this record.
\<close>

definition merge_response ::
  "('h, 'a) searchObj \<Rightarrow> query \<Rightarrow> bool \<Rightarrow> ('h, 'a) response
     \<Rightarrow> (('h, 'a) searchObj \<times> string) + ('h, 'a) searchObj" where
  "merge_response st queryReq appendResult res =
     (if from_r res > 0 then
        (let st1 = st\<lparr>from_qr := Some (from_r res),
                       scan_size := Some (scan_size_r res),
                       took := Some (took_r res)\<rparr>
         in if appendResult
            then (case hits st1 of
                    None \<Rightarrow> Inl (st1, ''push'')
                  | Some hs \<Rightarrow> Inr (st1\<lparr>hits := Some (hs @ hits_r res)\<rparr>))
            else Inr (st1\<lparr>hits := Some (hits_r res)\<rparr>))
      else if refreshInterval st > 0 \<and> routeName st = ''logs''
              \<and> (case hits st of None \<Rightarrow> False | Some hs \<Rightarrow> length hs > 0)
      then Inr (st\<lparr>from_qr := Some (from_r res),
                   scan_size := Some (scan_size_r res),
                   took := Some (took_r res),
                   aggs := aggs_r res,
                   hits := Some (hits_r res)\<rparr>)
      else (let total_kept = (if track_total_hits queryReq = None then None else total_r res)
            in Inr (st\<lparr>hits := Some (hits_r res),
                         total_qr := (case total_kept of None \<Rightarrow> total_qr st | Some n \<Rightarrow> Some n),
                         from_qr := Some (from_r res),
                         size_qr := Some (size_r res),
                         scan_size := Some (scan_size_r res),
                         took := Some (took_r res),
                         aggs := (case aggs_r res of None \<Rightarrow> aggs st | Some a \<Rightarrow> Some a),
                         function_error_qr :=
                           (case function_error_r res of
                              None \<Rightarrow> function_error_qr st | Some e \<Rightarrow> Some e)\<rparr>)))"

text \<open>
  The slice that follows in the current page, if any: the request object is
  overwritten with its span, \<open>from\<close> and \<open>size\<close>, and \<open>subpage\<close> is advanced.
  Reading \<open>.length\<close> of a page that the plan does not hold throws.
\<close>

definition current_page_slices :: "('h, 'a) searchObj \<Rightarrow> pageSlice list option" where
  "current_page_slices st =
     (if currentPage st - 1 < 0 \<or> \<not> nat (currentPage st - 1) < length (paginations st)
      then None
      else Some (paginations st ! nat (currentPage st - 1)))"

definition next_slice ::
  "('h, 'a) searchObj \<Rightarrow> query
     \<Rightarrow> (('h, 'a) searchObj \<times> string) + (('h, 'a) searchObj \<times> query option)" where
  "next_slice st queryReq =
     (case current_page_slices st of
        None \<Rightarrow> Inl (st, ''length'')
      | Some page \<Rightarrow>
         (if length page > subpage st
          then (let s = page ! subpage st
                in Inr (st\<lparr>subpage := subpage st + 1\<rparr>,
                        Some (queryReq\<lparr>start_time := startTime s, end_time := endTime s,
                                        from_q := from_s s, size_q := size_s s\<rparr>)))
          else Inr (st, None)))"

text \<open>
  \<open>getHistogramTitle\<close>, called without a guard by the \<open>then\<close> handler.  It reads
  \<open>queryResults.total.toLocaleString()\<close>, which throws a \<open>TypeError\<close> (\<open>None\<close>)
  when \<open>queryResults.total\<close> is \<open>undefined\<close>.  Otherwise it returns the title, which
  is kept in the chart parameters outside this record; of the title the model keeps
  the three counts it shows (first record, last record, total), the time and the
  scan size being rendered by imported formatters.
\<close>

definition getHistogramTitle :: "('h, 'a) searchObj \<Rightarrow> (int \<times> int \<times> int) option" where
  "getHistogramTitle st =
     (case total_qr st of
        None \<Rightarrow> None
      | Some n \<Rightarrow>
         (let startCount = (currentPage st - 1) * rowsPerPage st + 1;
              endCount = min (startCount + rowsPerPage st - 1) n
          in Some (startCount, endCount, n)))"

text \<open>
  The rest of the \<open>then\<close> handler, which runs once the next slice, if any, has been
  requested: the histogram title is computed, the function error of the response is
  shown, the histogram request is started when it is due, and the loading flag is
  cleared.  \<open>Inl\<close> is the state at the \<open>TypeError\<close> thrown by \<open>getHistogramTitle\<close>,
  with the property read; nothing after the call runs then.  (The helpers that
  derive field values and grid columns catch their own exceptions and work on state
  outside this record.)  The histogram request is that of \<open>getHistogramQueryData\<close>.
\<close>

definition getHistogramQueryData_request :: "query \<Rightarrow> query" where
  "getHistogramQueryData_request queryReq =
     queryReq\<lparr>size_q := 0, track_total_hits := Some True\<rparr>"

definition histogram_due :: "('h, 'a) searchObj \<Rightarrow> bool" where
  "histogram_due st \<longleftrightarrow>
     (aggs st = None \<or> currentPage st = 1) \<and> loadingHistogram st = False
       \<and> showHistogram st = True \<and> sqlMode st = False"

definition finish_then ::
  "('h, 'a) searchObj \<Rightarrow> query \<Rightarrow> ('h, 'a) response
     \<Rightarrow> (('h, 'a) searchObj \<times> string) + (('h, 'a) searchObj \<times> query option)" where
  "finish_then st histogramQueryReq res =
     (case getHistogramTitle st of
        None \<Rightarrow> Inl (st, ''toLocaleString'')
      | Some title \<Rightarrow>
         (let st1 = st\<lparr>functionError :=
                          (case function_error_r res of None \<Rightarrow> [] | Some e \<Rightarrow> e)\<rparr>
          in if histogram_due st1
             then Inr (st1\<lparr>loadingHistogram := True, loading := False\<rparr>,
                       Some (getHistogramQueryData_request histogramQueryReq))
             else Inr (st1\<lparr>loading := False\<rparr>, None)))"

text \<open>The \<open>catch\<close> handler of \<open>getPaginatedData\<close>.\<close>

definition getPaginatedData_catch ::
  "environment \<Rightarrow> ('h, 'a) searchObj \<Rightarrow> fetch_error \<Rightarrow> ('h, 'a) searchObj" where
  "getPaginatedData_catch env st err =
     (let st1 = st\<lparr>loading := False\<rparr>;
          st2 = (case err of
                   ResponseError e c \<Rightarrow> st1\<lparr>errorMsg := e\<rparr>
                 | ErrorObject m \<Rightarrow> st1\<lparr>errorMsg := m\<rparr>);
          code = (case err of ResponseError e c \<Rightarrow> c | ErrorObject m \<Rightarrow> None);
          customMessage = logsErrorMessage env code;
          st3 = st2\<lparr>errorCode := code\<rparr>
      in if customMessage \<noteq> [] then st3\<lparr>errorMsg := t_i18n env customMessage\<rparr> else st3)"

text \<open>
  The \<open>then\<close> handler as a whole.  An exception thrown inside it rejects the promise
  and is caught by the same \<open>catch\<close> handler, on the state reached at the throw
  (the refresh of the plan never throws, see \<open>forEach_total_total\<close>).  The result
  is the new state, the request of the next slice of the page when one is issued,
  and the histogram request when one is started.  The request of the next slice has
  been sent when \<open>getHistogramTitle\<close> is called, so it stays sent when that call
  throws.
\<close>

definition getPaginatedData_then ::
  "environment \<Rightarrow> ('h, 'a) searchObj \<Rightarrow> query \<Rightarrow> query \<Rightarrow> bool \<Rightarrow> ('h, 'a) response
     \<Rightarrow> ('h, 'a) searchObj \<times> query option \<times> query option" where
  "getPaginatedData_then env st queryReq histogramQueryReq appendResult res =
     (case forEach_total (partitions st) 0 queryReq res st of
        None \<Rightarrow>
          (getPaginatedData_catch env st (ErrorObject (typeErrorMessage env ''forEach'')),
           None, None)
      | Some st1 \<Rightarrow>
         (case merge_response st1 queryReq appendResult res of
            Inl (st2, prop) \<Rightarrow>
              (getPaginatedData_catch env st2 (ErrorObject (typeErrorMessage env prop)),
               None, None)
          | Inr st2 \<Rightarrow>
             (case next_slice st2 queryReq of
                Inl (st3, prop) \<Rightarrow>
                  (getPaginatedData_catch env st3 (ErrorObject (typeErrorMessage env prop)),
                   None, None)
              | Inr (st3, next_req) \<Rightarrow>
                 (case finish_then st3 histogramQueryReq res of
                    Inl (st4, prop) \<Rightarrow>
                      (getPaginatedData_catch env st4 (ErrorObject (typeErrorMessage env prop)),
                       next_req, None)
                  | Inr (st4, histogram_req) \<Rightarrow> (st4, next_req, histogram_req)))))"

text \<open>
  \<open>getPaginatedData\<close> run against the outcomes of the search requests it issues,
  in the order in which it issues them: \<open>Inl\<close> a rejection, \<open>Inr\<close> a response.  The
  nested call for the next slice of the page passes \<open>appendResult = true\<close> and the
  same request object.  The result is the final state and the requests sent; with
  no outcome left the last request is still in flight.
\<close>

fun getPaginatedData ::
  "environment \<Rightarrow> (fetch_error + ('h, 'a) response) list \<Rightarrow> ('h, 'a) searchObj \<Rightarrow> query
     \<Rightarrow> query \<Rightarrow> bool \<Rightarrow> ('h, 'a) searchObj \<times> query list" where
  "getPaginatedData env [] st queryReq histogramQueryReq appendResult =
     (st, [getPaginatedData_request st queryReq])"
| "getPaginatedData env (Inl err # outcomes) st queryReq histogramQueryReq appendResult =
     (getPaginatedData_catch env st err, [getPaginatedData_request st queryReq])"
| "getPaginatedData env (Inr res # outcomes) st queryReq histogramQueryReq appendResult =
     (let sent = getPaginatedData_request st queryReq
      in case getPaginatedData_then env st sent histogramQueryReq appendResult res of
           (st', None, histogram_req) \<Rightarrow> (st', [sent])
         | (st', Some next_req, histogram_req) \<Rightarrow>
            (case getPaginatedData env outcomes st' next_req
                    (case histogram_req of
                       None \<Rightarrow> histogramQueryReq | Some h \<Rightarrow> h) True of
               (st'', reqs) \<Rightarrow> (st'', sent # reqs)))"

section \<open>The histogram request\<close>





section \<open>The histogram interval of \<open>buildSearch\<close>\<close>

text \<open>
  The interval and the key format are assigned from the duration
  \<open>req.query.end_time - req.query.start_time\<close> (microseconds) by a sequence of
  \<open>if\<close> statements, each overwriting what the previous ones assigned.  The pair
  is (\<open>chartInterval\<close>, \<open>chartKeyFormat\<close>).
\<close>

definition select_interval :: "int \<Rightarrow> string \<times> string" where
  "select_interval d =
     (let c0 = (''10 second'', ''HH:mm:ss'');
          c1 = (if d \<ge> 1000000 * 60 * 30 then (''15 second'', ''HH:mm:ss'') else c0);
          c2 = (if d \<ge> 1000000 * 60 * 60 then (''30 second'', ''HH:mm:ss'') else c1);
          c3 = (if d \<ge> 1000000 * 3600 * 2 then (''1 minute'', ''MM-DD HH:mm'') else c2);
          c4 = (if d \<ge> 1000000 * 3600 * 6 then (''5 minute'', ''MM-DD HH:mm'') else c3);
          c5 = (if d \<ge> 1000000 * 3600 * 24 then (''30 minute'', ''MM-DD HH:mm'') else c4);
          c6 = (if d \<ge> 1000000 * 86400 * 7 then (''1 hour'', ''MM-DD HH:mm'') else c5);
          c7 = (if d \<ge> 1000000 * 86400 * 30 then (''1 day'', ''YYYY-MM-DD'') else c6)
      in c7)"

text \<open>
  \<open>String.prototype.replaceAll\<close> with a string pattern: the occurrences are
  replaced from left to right without overlap; the empty pattern matches before
  every character and at the end.
\<close>

function replaceAll :: "string \<Rightarrow> string \<Rightarrow> string \<Rightarrow> string" where
  "replaceAll pat rep s =
     (if pat = [] then rep @ concat (map (\<lambda>c. c # rep) s)
      else if s = [] then []
      else if take (length pat) s = pat
           then rep @ replaceAll pat rep (drop (length pat) s)
      else hd s # replaceAll pat rep (tl s))"
  by pat_completeness auto
termination
  by (relation "measure (\<lambda>(pat, rep, s). length s)") auto

declare replaceAll.simps [simp del]

text \<open>
  The aggregation expression of the request skeleton, with the configured
  timestamp column (\<open>store.state.zoConfig.timestamp_column\<close>).
\<close>

definition histogram_template :: "string \<Rightarrow> string" where
  "histogram_template timestamp_column =
     ''select histogram('' @ timestamp_column @
     '', '[INTERVAL]') AS zo_sql_key, count(*) AS zo_sql_num from query GROUP BY zo_sql_key ORDER BY zo_sql_key''"

text \<open>
  The part of \<open>buildSearch\<close> that handles the time range.  A bound that is
  \<open>"Invalid Date"\<close> is \<open>None\<close>.  The result is \<open>None\<close> when \<open>buildSearch\<close> returns
  \<open>false\<close> here: on an invalid bound, and on a start after the end.
\<close>

record timeBuild =
  req_start_time :: int
  req_end_time :: int
  chartInterval :: string
  chartKeyFormat :: string
  aggs_histogram :: string

definition buildSearch_time :: "string \<Rightarrow> int option \<Rightarrow> int option \<Rightarrow> timeBuild option" where
  "buildSearch_time timestamp_column startTime_t endTime_t =
     (case (startTime_t, endTime_t) of
        (Some s, Some e) \<Rightarrow>
          (if s > e then None
           else (let (interval, keyFormat) = select_interval (e - s)
                 in Some \<lparr>req_start_time = s, req_end_time = e,
                           chartInterval = interval, chartKeyFormat = keyFormat,
                           aggs_histogram =
                             replaceAll ''[INTERVAL]'' interval
                               (histogram_template timestamp_column)\<rparr>))
      | _ \<Rightarrow> None)"

text \<open>
  The interval table as the design document gives it: the thresholds in
  microseconds with their interval and key format, and the rule that the largest
  threshold met by the duration wins, the finest interval applying below all of
  them.
\<close>

definition ladder :: "(int \<times> string \<times> string) list" where
  "ladder =
     [(1800000000, ''15 second'', ''HH:mm:ss''),
      (3600000000, ''30 second'', ''HH:mm:ss''),
      (7200000000, ''1 minute'', ''MM-DD HH:mm''),
      (21600000000, ''5 minute'', ''MM-DD HH:mm''),
      (86400000000, ''30 minute'', ''MM-DD HH:mm''),
      (604800000000, ''1 hour'', ''MM-DD HH:mm''),
      (2592000000000, ''1 day'', ''YYYY-MM-DD'')]"

definition largest_satisfied :: "int \<Rightarrow> string \<times> string" where
  "largest_satisfied d =
     (case filter (\<lambda>entry. fst entry \<le> d) ladder of
        [] \<Rightarrow> (''10 second'', ''HH:mm:ss'')
      | e # es \<Rightarrow> snd (fold (\<lambda>x best. if fst best \<le> fst x then x else best) es e))"

section \<open>The initial state\<close>

text \<open>
  \<open>defaultObject\<close>, for the fields of the record: 250 rows per page, the first
  page, no refresh interval, the histogram shown, no SQL mode, nothing loading, no
  error, and \<open>queryResults\<close> without any property.  The route is that of the logs
  page.
\<close>

definition defaultObject :: "('h, 'a) searchObj" where
  "defaultObject =
     \<lparr>rowsPerPage = 250, currentPage = 1, refreshInterval = 0, routeName = ''logs'',
      showHistogram = True, sqlMode = False, loading = False, loadingHistogram = False,
      errorMsg = [], errorCode = Some 0, functionError = [],
      hits = None, total_qr = None, from_qr = None, size_qr = None, scan_size = None,
      took = None, aggs = None, function_error_qr = None,
      partitions = [], partitionTotal = [], paginations = [], subpage = 0\<rparr>"

section \<open>Partition lists that the rebuild pages exactly\<close>

text \<open>
  \<open>page_sizes\<close> gives the number of records of every logical page of a plan.
  \<open>page_of R item T F j\<close> is the slice that the loop of the rebuild pushes in its
  \<open>j\<close>-th round for a partition of \<open>T\<close> records whose rounds are shifted by \<open>F\<close>
  records against the pages: offset \<open>j * R - F\<close>, and \<open>R\<close> records or what is left
  of the partition.
\<close>

definition page_sizes :: "paginations \<Rightarrow> int list" where
  "page_sizes plan = map (\<lambda>page. sum_list (map size_s page)) plan"


text \<open>
  The partition lists on which the rebuild keeps count.  \<open>S\<close> is the number of records
  of the partitions before the one with \<open>T\<close> records.  The first partition always
  fits.  While the first page is still open (\<open>S < R\<close>: \<open>pageNumber\<close> is 0, and the
  loop does not look at the open page), the partition must fit into the first page,
  and may fill it only when it is the last one.  Once a page has been closed
  (\<open>R \<le> S\<close>), the open page holds \<open>S mod R\<close> records (none when it is fresh), the
  first slice of the partition takes the \<open>R - S mod R\<close> records that fill the page,
  whatever the partition holds, and the loop runs \<open>ceil(T / R)\<close> times: the partition
  must hold the records of that first slice, and what is left of it must need exactly
  the remaining rounds.
\<close>

definition partition_fits :: "int \<Rightarrow> int \<Rightarrow> int \<Rightarrow> bool \<Rightarrow> bool" where
  "partition_fits R S T is_last =
     (if S = 0 then True
      else if S < R then S + T < R \<or> (S + T = R \<and> is_last)
      else R - S mod R \<le> T \<and> ceil_div (S mod R + T) R = ceil_div T R)"

fun partitions_fit :: "int \<Rightarrow> int \<Rightarrow> int list \<Rightarrow> bool" where
  "partitions_fit R S [] = True"
| "partitions_fit R S (T # ts) =
     (1 \<le> T \<and> partition_fits R S T (ts = []) \<and> partitions_fit R (S + T) ts)"


section \<open>Sample values\<close>

text \<open>
  An environment whose error table has the single entry \<open>20001\<close>, and a request
  and two responses used in the examples.
\<close>

definition sample_environment :: environment where
  "sample_environment =
     \<lparr>logsErrorMessage = (\<lambda>code. if code = Some 20001 then ''message.SearchSQLNotValid'' else []),
      t_i18n = (\<lambda>key. if key = ''message.SearchSQLNotValid'' then ''Search SQL not valid'' else key),
      typeErrorMessage = (\<lambda>prop. ''Cannot read properties of undefined (reading '' @ prop @ '')'')\<rparr>"

definition sample_query :: query where
  "sample_query =
     \<lparr>sql = ''select * from logs'', start_time = 0, end_time = 1000, from_q = 250,
      size_q = 250, track_total_hits = None\<rparr>"

definition sample_continuation :: "(nat, nat) response" where
  "sample_continuation =
     \<lparr>hits_r = [2], total_r = None, from_r = 250, size_r = 250, scan_size_r = 3, took_r = 2,
      aggs_r = None, function_error_r = None\<rparr>"

definition sample_first :: "(nat, nat) response" where
  "sample_first =
     \<lparr>hits_r = [2], total_r = None, from_r = 0, size_r = 250, scan_size_r = 3, took_r = 2,
      aggs_r = None, function_error_r = None\<rparr>"

definition sample_state :: "(nat, nat) searchObj" where
  "sample_state = defaultObject\<lparr>hits := Some [1], scan_size := Some 5, took := Some 7\<rparr>"








section \<open>Properties of the plan builder\<close>

subsection \<open>Rounding up\<close>





subsection \<open>The loop over the pages of one partition\<close>



lemma for_pages_exit:
  "\<not> int i < tp \<Longrightarrow> for_pages R cp item T tp i (pages, pn, pf) = Some (pages, pn)"
  by (subst for_pages.simps) simp

















subsection \<open>One partition of the list\<close>
















subsection \<open>The whole partition list\<close>



subsection \<open>Counting the pages\<close>


subsection \<open>The rebuild never fails\<close>

text \<open>
  The page number never runs ahead of the plan, so none of the reads that would
  throw in JavaScript is reached: the rebuild always returns a plan.
\<close>

lemma for_pages_total:
  "pn \<le> length pages
     \<Longrightarrow> \<exists>pages' pn'. for_pages R cp item T tp i (pages, pn, pf) = Some (pages', pn')
           \<and> pn' \<le> length pages'"
proof (induction "nat (tp - int i)" arbitrary: i pages pn pf)
  case 0
  then show ?case by (simp add: for_pages_exit)
next
  case (Suc k)
  then have lt: "int i < tp" by linarith
  have k: "k = nat (tp - int (i + 1))" using Suc.hyps(2) by linarith
  have ne: "pn > 0 \<Longrightarrow> pages \<noteq> []" using Suc.prems by auto
  define rs0 where "rs0 = (if int i = tp - 1 then (if T - pf \<noteq> 0 then T - pf else R) else R)"
  define lp where "lp = (if pn > 0
      then map_option (\<lambda>l. (l, if l \<noteq> R then R - l else rs0)) (last_page_size pages)
      else Some (0, rs0))"
  have "lp \<noteq> None" using ne by (simp add: lp_def last_page_size_def)
  then obtain l rs where lp: "lp = Some (l, rs)" by (cases lp) auto
  have "\<exists>pages1. ensure_page pages pn = Some pages1 \<and> pn < length pages1"
    using Suc.prems by (cases "pn < length pages") (simp_all add: ensure_page_def)
  then obtain pages1 where e: "ensure_page pages pn = Some pages1" and l1: "pn < length pages1"
    by blast
  define s where "s = \<lparr>startTime = fst item, endTime = snd item, from_s = pf, size_s = min rs R\<rparr>"
  have "\<exists>pages2. push_slice pages1 pn s = Some pages2 \<and> pn < length pages2"
    using l1 by (simp add: push_slice_def)
  then obtain pages2 where p: "push_slice pages1 pn s = Some pages2" and l2: "pn < length pages2"
    by blast
  define pn' where "pn' = (if rs = R \<or> l + rs = R then pn + 1 else pn)"
  have pn': "pn' \<le> length pages2" using l2 by (simp add: pn'_def)
  have IH: "\<exists>pages' pn''. for_pages R cp item T tp (i + 1) (pages2, pn', pf + rs) = Some (pages', pn'')
           \<and> pn'' \<le> length pages'"
    using Suc.hyps(1) [OF k pn'] by blast
  show ?case
    apply (subst for_pages.simps)
    apply (simp only: lt if_True Let_def rs0_def [symmetric] lp_def [symmetric])
    apply (simp only: lp option.case prod.case e s_def [symmetric] p pn'_def [symmetric])
    using IH pn' apply auto
    done
qed

lemma else_branch_total:
  "pn < length pages
     \<Longrightarrow> \<exists>pages' pn'. else_branch R item (pages, pn) = Some (pages', pn') \<and> pn' \<le> length pages'"
proof -
  assume l: "pn < length pages"
  then have "pages \<noteq> []" by auto
  then show ?thesis
    using l by (simp add: else_branch_def last_page_size_def push_slice_def Let_def)
qed

lemma partition_callback_total:
  "pn \<le> length pages
     \<Longrightarrow> \<exists>pages' pn'. partition_callback R cp totals (pages, pn) item index = Some (pages', pn')
           \<and> pn' \<le> length pages'"
proof -
  assume le: "pn \<le> length pages"
  have "\<exists>pages0. ensure_page pages pn = Some pages0 \<and> pn < length pages0"
    using le by (cases "pn < length pages") (simp_all add: ensure_page_def)
  then obtain pages0 where e: "ensure_page pages pn = Some pages0" and l0: "pn < length pages0"
    by blast
  show ?thesis
  proof (cases "js_index totals index")
    case None
    then show ?thesis using else_branch_total [OF l0] by (simp add: partition_callback_def e)
  next
    case (Some total_p)
    show ?thesis
    proof (cases "ceil_div total_p R > 0")
      case True
      then show ?thesis
        using for_pages_total [of pn pages0 R cp item total_p "ceil_div total_p R" 0 0] l0 Some
        by (simp add: partition_callback_def e)
    next
      case False
      then show ?thesis
        using else_branch_total [OF l0] Some by (simp add: partition_callback_def e)
    qed
  qed
qed

lemma forEach_partition_total:
  "pn \<le> length pages
     \<Longrightarrow> \<exists>st'. forEach_partition R cp totals parts index (pages, pn) = Some st'"
proof (induction parts arbitrary: index pages pn)
  case Nil
  then show ?case by simp
next
  case (Cons item parts)
  from partition_callback_total [OF Cons.prems, of R cp totals item index]
  obtain pages' pn' where "partition_callback R cp totals (pages, pn) item index = Some (pages', pn')"
    and "pn' \<le> length pages'" by blast
  then show ?case using Cons.IH [of pn' pages' "index + 1"] by simp
qed

lemma rebuild_total: "\<exists>plan. rebuild R cp parts totals = Some plan"
  using forEach_partition_total [of 0 "[]" R cp totals parts 0] by (auto simp add: rebuild_def)

lemma refreshPartitionPagination_total: "\<exists>st'. refreshPartitionPagination st = Some st'"
  using rebuild_total [of "rowsPerPage st" "currentPage st" "partitions st" "partitionTotal st"]
  by (auto simp add: refreshPartitionPagination_def)

lemma forEach_total_total: "\<exists>st'. forEach_total items index queryReq res st = Some st'"
proof (induction items arbitrary: index st)
  case Nil
  then show ?case by simp
next
  case (Cons item items)
  show ?case
  proof (cases "js_index (partitionTotal st) index = Some (- 1) \<and> start_time queryReq = fst item")
    case True
    obtain st1 where "refreshPartitionPagination
        (st\<lparr>partitionTotal := (partitionTotal st)[index := total_r res]\<rparr>) = Some st1"
      using refreshPartitionPagination_total by blast
    with True Cons.IH [of "index + 1" st1] show ?thesis by simp
  next
    case False
    with Cons.IH [of "index + 1" st] show ?thesis by auto
  qed
qed

subsection \<open>The example of the design document\<close>

text \<open>
  Two partitions of 300 records each at 250 rows per page: the second page is
  topped off from the second partition.
\<close>

lemma rebuild_two_partitions_of_300:
  "rebuild 250 1 [(0, 1000), (1000, 2000)] [Some 300, Some 300] =
     Some [[\<lparr>startTime = 0, endTime = 1000, from_s = 0, size_s = 250\<rparr>],
           [\<lparr>startTime = 0, endTime = 1000, from_s = 250, size_s = 50\<rparr>,
            \<lparr>startTime = 1000, endTime = 2000, from_s = 0, size_s = 200\<rparr>],
           [\<lparr>startTime = 1000, endTime = 2000, from_s = 200, size_s = 100\<rparr>]]"
  by (simp add: rebuild_def partition_callback_def else_branch_def js_index_def ceil_div_def
      ensure_page_def push_slice_def last_page_size_def for_pages.simps)

subsection \<open>Partition lists outside the condition\<close>

text \<open>
  Each clause of \<open>partition_fits\<close> is needed.  At 250 rows per page: a second
  partition that does not fit into the open first page is put there whole (one page
  of 300 records); a partition that fills the first page without being the last
  leaves it open for the next one (one page of 350 records); a partition shorter than
  the records that fill the open page is asked for all of them (two pages of 250 for
  400 records, and the same on a fresh page for 350 records); and a partition whose
  records left after the top-off need one round more than \<open>ceil(T / R)\<close> loses them
  (two pages for 550 records).
\<close>

lemma rebuild_first_page_overfilled:
  "\<not> partitions_fit 250 0 [100, 200]
   \<and> map_option page_sizes
        (rebuild 250 1 [(0, 1000), (1000, 2000)] [Some 100, Some 200]) = Some [300]"
  by (simp add: partition_fits_def page_sizes_def rebuild_def partition_callback_def
      else_branch_def js_index_def ceil_div_def ensure_page_def push_slice_def
      last_page_size_def for_pages.simps)

lemma rebuild_first_page_left_open:
  "\<not> partitions_fit 250 0 [100, 150, 100]
   \<and> map_option page_sizes
        (rebuild 250 1 [(0, 1000), (1000, 2000), (2000, 3000)] [Some 100, Some 150, Some 100])
      = Some [350]"
  by (simp add: partition_fits_def page_sizes_def rebuild_def partition_callback_def
      else_branch_def js_index_def ceil_div_def ensure_page_def push_slice_def
      last_page_size_def for_pages.simps)

lemma rebuild_short_partition_topped_off:
  "\<not> partitions_fit 250 0 [300, 100]
   \<and> map_option page_sizes
        (rebuild 250 1 [(0, 1000), (1000, 2000)] [Some 300, Some 100]) = Some [250, 250]
   \<and> \<not> partitions_fit 250 0 [250, 100]
   \<and> map_option page_sizes
        (rebuild 250 1 [(0, 1000), (1000, 2000)] [Some 250, Some 100]) = Some [250, 250]"
  by (simp add: partition_fits_def page_sizes_def rebuild_def partition_callback_def
      else_branch_def js_index_def ceil_div_def ensure_page_def push_slice_def
      last_page_size_def for_pages.simps)

lemma rebuild_round_missing:
  "\<not> partitions_fit 250 0 [300, 250]
   \<and> map_option page_sizes
        (rebuild 250 1 [(0, 1000), (1000, 2000)] [Some 300, Some 250]) = Some [250, 250]
   \<and> ceil_div (300 + 250) 250 = 3"
  by (simp add: partition_fits_def page_sizes_def rebuild_def partition_callback_def
      else_branch_def js_index_def ceil_div_def ensure_page_def push_slice_def
      last_page_size_def for_pages.simps)

text \<open>
  The condition is sufficient for the count of the pages, not necessary: two slips
  can cancel.  With totals 300, 250 and 200 the second partition loses its last 50
  records and the third is asked for 250 records of its 200, so the three pages hold
  250 records each, as many as the 750 records need, over a plan that is wrong.
\<close>

lemma rebuild_slips_cancel:
  "\<not> partitions_fit 250 0 [300, 250, 200]
   \<and> rebuild 250 1 [(0, 1000), (1000, 2000), (2000, 3000)] [Some 300, Some 250, Some 200] =
       Some [[\<lparr>startTime = 0, endTime = 1000, from_s = 0, size_s = 250\<rparr>],
             [\<lparr>startTime = 0, endTime = 1000, from_s = 250, size_s = 50\<rparr>,
              \<lparr>startTime = 1000, endTime = 2000, from_s = 0, size_s = 200\<rparr>],
             [\<lparr>startTime = 2000, endTime = 3000, from_s = 0, size_s = 250\<rparr>]]"
  by (simp add: partition_fits_def rebuild_def partition_callback_def
      else_branch_def js_index_def ceil_div_def ensure_page_def push_slice_def
      last_page_size_def for_pages.simps)

subsection \<open>String replacement and the interval table\<close>

lemma replaceAll_skip:
  "p \<notin> set a \<Longrightarrow> replaceAll (p # ps) rep (a @ b) = a @ replaceAll (p # ps) rep b"
proof (induction a)
  case Nil
  then show ?case by simp
next
  case (Cons c cs)
  then have "take (length (p # ps)) ((c # cs) @ b) \<noteq> p # ps" by auto
  with Cons show ?case by (subst replaceAll.simps) auto
qed

lemma replaceAll_hit:
  "replaceAll (p # ps) rep ((p # ps) @ b) = rep @ replaceAll (p # ps) rep b"
  by (subst replaceAll.simps) simp

lemma replaceAll_clean:
  "p \<notin> set a \<Longrightarrow> replaceAll (p # ps) rep a = a"
  using replaceAll_skip [of p a ps rep "[]"] by (simp add: replaceAll.simps [of _ _ "[]"])

lemma histogram_substituted:
  assumes "CHR ''['' \<notin> set ts"
  shows "replaceAll ''[INTERVAL]'' iv (histogram_template ts) =
     ''select histogram('' @ ts @ '', '' @ CHR 0x27 # iv @ CHR 0x27 #
     '') AS zo_sql_key, count(*) AS zo_sql_num from query GROUP BY zo_sql_key ORDER BY zo_sql_key''"
proof -
  let ?pre = "''select histogram('' @ ts @ '', '' @ [CHR 0x27]"
  let ?post = "CHR 0x27 #
    '') AS zo_sql_key, count(*) AS zo_sql_num from query GROUP BY zo_sql_key ORDER BY zo_sql_key''"
  have shape: "histogram_template ts = ?pre @ (''[INTERVAL]'' @ ?post)"
    by (simp add: histogram_template_def)
  have np: "CHR ''['' \<notin> set ?pre" using assms by simp
  have "replaceAll ''[INTERVAL]'' iv (histogram_template ts)
        = ?pre @ replaceAll ''[INTERVAL]'' iv (''[INTERVAL]'' @ ?post)"
    unfolding shape using np by (rule replaceAll_skip)
  also have "replaceAll ''[INTERVAL]'' iv (''[INTERVAL]'' @ ?post)
        = iv @ replaceAll ''[INTERVAL]'' iv ?post"
    by (rule replaceAll_hit)
  also have "replaceAll ''[INTERVAL]'' iv ?post = ?post"
    by (rule replaceAll_clean) simp
  finally show ?thesis by simp
qed

lemma select_interval_ladder: "select_interval d = largest_satisfied d"
  by (simp add: select_interval_def largest_satisfied_def ladder_def Let_def)

subsection \<open>The initial plan\<close>

lemma forEach_initial_eq:
  "forEach_initial r xs (ps, ts) =
     (ps @ map (\<lambda>item. [\<lparr>startTime = fst item, endTime = snd item, from_s = 0, size_s = r\<rparr>]) xs,
      ts @ replicate (length xs) (Some (- 1)))"
  by (induction xs arbitrary: ps ts) (simp_all add: replicate_app_Cons_same)

section \<open>The claims\<close>




text \<open>
  C2.  No slice of a partition with a known total \<open>T\<close> may reach past \<open>T\<close>.  The
  rebuild breaks this: the slice that tops off a partly filled page always takes
  what the page lacks, whatever the partition holds.  With totals 300 and 100 and
  250 rows per page the second partition gets the slice \<open>from = 0, size = 200\<close>,
  which extends past its 100 records.
\<close>

theorem slice_past_partition_total:
  "map_option paginations
     (refreshPartitionPagination
        ((defaultObject :: (nat, nat) searchObj)
           \<lparr>partitions := [(0, 1000), (1000, 2000)],
            partitionTotal := [Some 300, Some 100]\<rparr>)) =
     Some [[\<lparr>startTime = 0, endTime = 1000, from_s = 0, size_s = 250\<rparr>],
           [\<lparr>startTime = 0, endTime = 1000, from_s = 250, size_s = 50\<rparr>,
            \<lparr>startTime = 1000, endTime = 2000, from_s = 0, size_s = 200\<rparr>]]"
  by (simp add: refreshPartitionPagination_def defaultObject_def rebuild_def
      partition_callback_def else_branch_def js_index_def ceil_div_def ensure_page_def
      push_slice_def last_page_size_def for_pages.simps)

text \<open>
  C3.  The flag \<open>track_total_hits\<close> is meant for the first request of a partition,
  as the comment in \<open>getPaginatedData\<close> says, but it is decided by
  \<open>partitionTotal[currentPage - 1]\<close>, the total at the index of the page.  After
  the first partition of two has reported 600 records, the plan has three pages.
  On page 3 the index 2 is outside \<open>partitionTotal\<close>, so the flag is left as it
  is: the slice of the second partition, whose total is still \<open>-1\<close>, is requested
  without it.  On page 2 the slice belongs to the first partition, whose total is
  known, and is requested with the flag, because the total at index 1 is \<open>-1\<close>.
\<close>

theorem track_total_hits_by_page_index:
  "map_option paginations
     (refreshPartitionPagination
        ((defaultObject :: (nat, nat) searchObj)
           \<lparr>partitions := [(0, 1000), (1000, 2000)],
            partitionTotal := [Some 600, Some (- 1)]\<rparr>)) =
     Some [[\<lparr>startTime = 0, endTime = 1000, from_s = 0, size_s = 250\<rparr>],
           [\<lparr>startTime = 0, endTime = 1000, from_s = 250, size_s = 250\<rparr>],
           [\<lparr>startTime = 0, endTime = 1000, from_s = 500, size_s = 100\<rparr>,
            \<lparr>startTime = 1000, endTime = 2000, from_s = 0, size_s = 150\<rparr>]]
   \<and> snd (getPaginatedData sample_environment
        [Inr \<lparr>hits_r = [7], total_r = None, from_r = 500, size_r = 100, scan_size_r = 3,
              took_r = 2, aggs_r = None, function_error_r = None\<rparr>]
        ((defaultObject :: (nat, nat) searchObj)
           \<lparr>currentPage := 3,
            hits := Some [],
            partitions := [(0, 1000), (1000, 2000)],
            partitionTotal := [Some 600, Some (- 1)],
            paginations :=
              [[\<lparr>startTime = 0, endTime = 1000, from_s = 0, size_s = 250\<rparr>],
               [\<lparr>startTime = 0, endTime = 1000, from_s = 250, size_s = 250\<rparr>],
               [\<lparr>startTime = 0, endTime = 1000, from_s = 500, size_s = 100\<rparr>,
                \<lparr>startTime = 1000, endTime = 2000, from_s = 0, size_s = 150\<rparr>]],
            subpage := 1\<rparr>)
        (sample_query\<lparr>from_q := 500, size_q := 100\<rparr>)
        sample_query False)
     = [sample_query\<lparr>from_q := 500, size_q := 100\<rparr>,
        sample_query\<lparr>start_time := 1000, end_time := 2000, from_q := 0, size_q := 150\<rparr>]
   \<and> track_total_hits
        (getPaginatedData_request
           ((defaultObject :: (nat, nat) searchObj)
              \<lparr>currentPage := 2,
               partitions := [(0, 1000), (1000, 2000)],
               partitionTotal := [Some 600, Some (- 1)]\<rparr>)
           sample_query) = Some True"
  by (simp add: refreshPartitionPagination_def rebuild_def partition_callback_def
      else_branch_def js_index_def
      ceil_div_def ensure_page_def push_slice_def last_page_size_def for_pages.simps
      getPaginatedData_request_def current_total_def getPaginatedData_then_def
      merge_response_def next_slice_def current_page_slices_def finish_then_def
      getHistogramTitle_def getPaginatedData_catch_def histogram_due_def defaultObject_def
      sample_query_def sample_environment_def Let_def)

text \<open>
  C4, as stated, fails.  A response with \<open>from > 0\<close> does not add to the running totals:
  with \<open>scan_size = 5\<close> and \<open>took = 7\<close> accumulated, a continuation response with
  \<open>scan_size = 3\<close> and \<open>took = 2\<close> leaves 3 and 2, not 8 and 9; and when it is the
  first slice of its page (\<open>appendResult = false\<close>) its hits replace the
  accumulated ones.
\<close>

theorem merge_response_counterexample:
  "map_sum fst scan_size (merge_response sample_state sample_query True sample_continuation)
     = Inr (Some 3)
   \<and> map_sum fst took (merge_response sample_state sample_query True sample_continuation)
     = Inr (Some 2)
   \<and> map_sum fst hits (merge_response sample_state sample_query False sample_continuation)
     = Inr (Some [2])"
  by (simp add: merge_response_def sample_state_def sample_continuation_def defaultObject_def)

text \<open>
  C4 (amended).  For every slice response with \<open>from > 0\<close> the executor overwrites
  \<open>from\<close>, \<open>scan_size\<close> and \<open>took\<close> with the values of the response (it does not
  add them); it appends the hits of the response to the accumulated hits when the
  slice continues a page (\<open>appendResult = true\<close>) and replaces them otherwise.  For
  every response whose \<open>from\<close> is not greater than 0, outside live-refresh mode, it
  replaces the accumulated hits, \<open>from\<close>, \<open>scan_size\<close> and \<open>took\<close> wholesale.
\<close>

theorem merge_response_replaces:
  "(from_r res > 0 \<and> hits st = Some hs \<longrightarrow>
      (\<exists>st'. merge_response st queryReq True res = Inr st'
         \<and> hits st' = Some (hs @ hits_r res)
         \<and> from_qr st' = Some (from_r res)
         \<and> scan_size st' = Some (scan_size_r res) \<and> took st' = Some (took_r res)))
   \<and> (from_r res > 0 \<longrightarrow>
      (\<exists>st'. merge_response st queryReq False res = Inr st'
         \<and> hits st' = Some (hits_r res)
         \<and> from_qr st' = Some (from_r res)
         \<and> scan_size st' = Some (scan_size_r res) \<and> took st' = Some (took_r res)))
   \<and> (\<not> from_r res > 0 \<and> \<not> (refreshInterval st > 0 \<and> routeName st = ''logs'') \<longrightarrow>
      (\<exists>st'. merge_response st queryReq appendResult res = Inr st'
         \<and> hits st' = Some (hits_r res)
         \<and> from_qr st' = Some (from_r res)
         \<and> scan_size st' = Some (scan_size_r res) \<and> took st' = Some (took_r res)))"
  by (simp add: merge_response_def Let_def)

text \<open>
  The theorem at a continuation response (\<open>from = 250\<close>) and at a first response
  (\<open>from = 0\<close>), merged into a state that holds one hit, \<open>scan_size = 5\<close> and
  \<open>took = 7\<close>.
\<close>

theorem merge_response_replaces_witness:
  "from_r sample_continuation > 0 \<and> hits sample_state = Some [1]
   \<and> (\<exists>st'. merge_response sample_state sample_query True sample_continuation = Inr st'
         \<and> hits st' = Some [1, 2] \<and> from_qr st' = Some 250
         \<and> scan_size st' = Some 3 \<and> took st' = Some 2)
   \<and> (\<exists>st'. merge_response sample_state sample_query False sample_continuation = Inr st'
         \<and> hits st' = Some [2] \<and> from_qr st' = Some 250
         \<and> scan_size st' = Some 3 \<and> took st' = Some 2)
   \<and> \<not> from_r sample_first > 0
   \<and> \<not> (refreshInterval sample_state > 0 \<and> routeName sample_state = ''logs'')
   \<and> (\<exists>st'. merge_response sample_state sample_query True sample_first = Inr st'
         \<and> hits st' = Some [2] \<and> from_qr st' = Some 0
         \<and> scan_size st' = Some 3 \<and> took st' = Some 2)"
  using merge_response_replaces [of sample_continuation sample_state "[1]" sample_query True]
    merge_response_replaces [of sample_first sample_state "[1]" sample_query True]
  by (simp add: sample_state_def sample_continuation_def sample_first_def defaultObject_def)

text \<open>
  C5.  For every time range with start not after end, \<open>buildSearch\<close> selects the
  interval and the key format of the largest threshold of the table that the
  duration \<open>end_time - start_time\<close> meets, and \<open>10 second\<close> with \<open>HH:mm:ss\<close> when it
  meets none; the selected interval is put verbatim in the place of
  \<open>[INTERVAL]\<close> in the histogram aggregation expression.  (The configured
  timestamp column is taken not to contain an opening bracket.)
\<close>

theorem buildSearch_interval_ladder:
  assumes "s \<le> e" and "CHR ''['' \<notin> set timestamp_column"
  shows "buildSearch_time timestamp_column (Some s) (Some e) =
     Some \<lparr>req_start_time = s, req_end_time = e,
           chartInterval = fst (largest_satisfied (e - s)),
           chartKeyFormat = snd (largest_satisfied (e - s)),
           aggs_histogram =
             ''select histogram('' @ timestamp_column @ '', '' @
             CHR 0x27 # fst (largest_satisfied (e - s)) @ CHR 0x27 #
             '') AS zo_sql_key, count(*) AS zo_sql_num from query GROUP BY zo_sql_key ORDER BY zo_sql_key''\<rparr>"
  using assms
  by (simp add: buildSearch_time_def select_interval_ladder histogram_substituted
      split: prod.splits)

theorem buildSearch_interval_ladder_witness:
  "(0::int) \<le> 7200000001 \<and> CHR ''['' \<notin> set ''_timestamp'' \<and>
   buildSearch_time ''_timestamp'' (Some 0) (Some 7200000001) =
     Some \<lparr>req_start_time = 0, req_end_time = 7200000001,
           chartInterval = ''1 minute'', chartKeyFormat = ''MM-DD HH:mm'',
           aggs_histogram =
             ''select histogram(_timestamp, '1 minute') AS zo_sql_key, count(*) AS zo_sql_num from query GROUP BY zo_sql_key ORDER BY zo_sql_key''\<rparr>"
  using buildSearch_interval_ladder [of 0 7200000001 "''_timestamp''"]
  by (simp add: largest_satisfied_def ladder_def)

text \<open>
  C6, as stated, fails.  The three sample values of the design document are not those of
  the selection: one microsecond short of 30 minutes is below every threshold,
  30 minutes meets the first threshold only, and one microsecond over 2 hours
  meets the 2 hour threshold but not the 6 hour one.
\<close>

theorem select_interval_samples_counterexample:
  "fst (select_interval (1800000000 - 1)) \<noteq> ''15 second''
   \<and> fst (select_interval 1800000000) \<noteq> ''30 second''
   \<and> fst (select_interval 7200000001) \<noteq> ''5 minute''"
  by (simp add: select_interval_def)

text \<open>
  C6 (amended).  The interval is a function of the duration alone, and
  \<open>select(1,800,000,000 - 1)\<close> is \<open>10 second\<close>, \<open>select(1,800,000,000)\<close> is
  \<open>15 second\<close>, \<open>select(7,200,000,001)\<close> is \<open>1 minute\<close>.
\<close>

theorem select_interval_samples:
  "fst (select_interval (1800000000 - 1)) = ''10 second''
   \<and> fst (select_interval 1800000000) = ''15 second''
   \<and> fst (select_interval 7200000001) = ''1 minute''"
  by (simp add: select_interval_def)

text \<open>
  C7.  A partition whose known total is 0 is to be skipped.  The rebuild takes the
  branch of the unknown total for it, since \<open>Math.ceil(0 / R)\<close> is not greater than
  0, and gives it a slice: with totals 300 and 0 the second partition gets the
  slice \<open>from = 0, size = 200\<close> in the second page, which the plan of the first
  partition alone does not have.
\<close>

theorem zero_total_partition_gets_slice:
  "map_option paginations
     (refreshPartitionPagination
        ((defaultObject :: (nat, nat) searchObj)
           \<lparr>partitions := [(0, 1000), (1000, 2000)],
            partitionTotal := [Some 300, Some 0]\<rparr>)) =
     Some [[\<lparr>startTime = 0, endTime = 1000, from_s = 0, size_s = 250\<rparr>],
           [\<lparr>startTime = 0, endTime = 1000, from_s = 250, size_s = 50\<rparr>,
            \<lparr>startTime = 1000, endTime = 2000, from_s = 0, size_s = 200\<rparr>]]
   \<and> map_option paginations
     (refreshPartitionPagination
        ((defaultObject :: (nat, nat) searchObj)
           \<lparr>partitions := [(0, 1000)], partitionTotal := [Some 300]\<rparr>)) =
     Some [[\<lparr>startTime = 0, endTime = 1000, from_s = 0, size_s = 250\<rparr>],
           [\<lparr>startTime = 0, endTime = 1000, from_s = 250, size_s = 50\<rparr>]]"
  by (simp add: refreshPartitionPagination_def defaultObject_def rebuild_def
      partition_callback_def else_branch_def js_index_def ceil_div_def ensure_page_def
      push_slice_def last_page_size_def for_pages.simps)

text \<open>
  C8, as stated, fails.  The error message is not always non-empty: a rejection whose
  response carries the empty error string and a code without an entry in the
  table leaves the empty message.
\<close>

theorem fetch_failure_counterexample:
  "errorMsg (fst (getPaginatedData sample_environment
                    [Inl (ResponseError [] (Some 99999))]
                    sample_state sample_query sample_query True)) = []"
  by (simp add: getPaginatedData_catch_def sample_environment_def)

text \<open>
  C8 (amended).  On every fetch failure while a logical page is executed, the
  executor sends no further request for the page, whatever slices remain, leaves
  the hits accumulated from the slices already completed untouched, clears the
  loading flag, and sets the error message: the translated friendly message when
  \<open>logsErrorMessage\<close> has an entry for the code of the backend, otherwise the raw
  error string of the backend, or the message of the error when there is no
  response.  The message is non-empty exactly when that string is.
\<close>

theorem fetch_failure_handling:
  "(case getPaginatedData env (Inl err # outcomes) st queryReq histogramQueryReq appendResult of
      (st', sent) \<Rightarrow>
        sent = [getPaginatedData_request st queryReq]
        \<and> hits st' = hits st
        \<and> loading st' = False
        \<and> errorMsg st' =
            (case err of
               ResponseError e c \<Rightarrow>
                 (if logsErrorMessage env c \<noteq> [] then t_i18n env (logsErrorMessage env c) else e)
             | ErrorObject m \<Rightarrow>
                 (if logsErrorMessage env None \<noteq> []
                  then t_i18n env (logsErrorMessage env None) else m)))"
  by (simp add: getPaginatedData_catch_def Let_def split: fetch_error.splits)

text \<open>
  C9.  After \<open>getQueryPartitions\<close> succeeds, the stored partition list is the
  reported one sorted ascending by start time, the plan has one logical page per
  partition, each holding the single slice \<open>from = 0, size = rowsPerPage\<close> over the
  span of its partition, every total is the sentinel \<open>-1\<close>, and
  \<open>queryResults.total\<close> is the reported record count.
\<close>

theorem getQueryPartitions_initial_plan:
  "(let st' = getQueryPartitions st res in
      sorted (map fst (partitions st'))
      \<and> mset (partitions st') = mset (partitions_r res)
      \<and> paginations st' =
          map (\<lambda>item. [\<lparr>startTime = fst item, endTime = snd item, from_s = 0,
                          size_s = rowsPerPage st\<rparr>]) (partitions st')
      \<and> partitionTotal st' = replicate (length (partitions_r res)) (Some (- 1))
      \<and> total_qr st' = Some (records res))"
  by (simp add: getQueryPartitions_def forEach_initial_eq Let_def)




end
